theory Spec2Isabelle
  imports Complex_Main
begin

section \<open>JavaScript values\<close>

text \<open>
  The dashboard is written in JavaScript. Its numbers are the binary64 floating-point
  numbers: \<open>NaN\<close>, the two infinities, and the finite doubles. A finite number carries
  the real that it denotes. The sign of zero is not modelled: the two zeros compare equal
  and none of the operations below tells them apart.
\<close>

datatype number = NaN | NegInfinity | Finite real | Infinity

fun js_neg :: "number \<Rightarrow> number" where
  "js_neg NaN = NaN"
| "js_neg NegInfinity = Infinity"
| "js_neg (Finite a) = Finite (- a)"
| "js_neg Infinity = NegInfinity"

text \<open>
  Rounding to the nearest double, ties to the even significand. For a positive real
  \<open>a\<close>, \<open>binade a\<close> is the exponent \<open>e\<close> with \<open>2 ^ e \<le> a < 2 ^ (e + 1)\<close>, found from the
  length in bits of the integer part of \<open>a\<close> (of \<open>1 / a\<close> when \<open>a < 1\<close>). The doubles of
  that binade are the multiples of the quantum \<open>2 ^ (e - 52)\<close>; below \<open>2 ^ (- 1022)\<close> the
  quantum stays that of the subnormal numbers, \<open>2 ^ (- 1074)\<close>. The real is rounded to
  the nearest multiple of its quantum, and a result that reaches \<open>2 ^ 1024\<close> overflows
  to infinity.
\<close>

fun bitlength :: "nat \<Rightarrow> nat" where
  "bitlength n = (if n = 0 then 0 else Suc (bitlength (n div 2)))"

declare bitlength.simps [simp del]

definition binade :: "real \<Rightarrow> int" where
  "binade a =
     (if 1 \<le> a then int (bitlength (nat \<lfloor>a\<rfloor>)) - 1
      else - int (bitlength (nat (\<lceil>1 / a\<rceil> - 1))))"

definition round_half_even :: "real \<Rightarrow> int" where
  "round_half_even r =
     (let n = \<lfloor>r\<rfloor>; f = r - of_int n
      in if f < 1 / 2 then n else if 1 / 2 < f then n + 1
         else if even n then n else n + 1)"

definition quantum :: "real \<Rightarrow> real" where
  "quantum a = 2 powi (max (binade a) (- 1022) - 52)"

definition overflow_bound :: real where
  "overflow_bound = 2 powi 1024"

definition round_pos :: "real \<Rightarrow> number" where
  "round_pos a =
     (let y = of_int (round_half_even (a / quantum a)) * quantum a
      in if overflow_bound \<le> y then Infinity else Finite y)"

definition round64 :: "real \<Rightarrow> number" where
  "round64 x =
     (if x = 0 then Finite 0
      else if 0 < x then round_pos x
      else js_neg (round_pos (- x)))"

text \<open>
  The arithmetic operators of the language: the exact result of two finite operands is
  rounded to the nearest double; the other cases are those of the infinities and of
  \<open>NaN\<close>.
\<close>

fun js_add :: "number \<Rightarrow> number \<Rightarrow> number" where
  "js_add NaN _ = NaN"
| "js_add _ NaN = NaN"
| "js_add (Finite a) (Finite b) = round64 (a + b)"
| "js_add Infinity NegInfinity = NaN"
| "js_add NegInfinity Infinity = NaN"
| "js_add Infinity _ = Infinity"
| "js_add _ Infinity = Infinity"
| "js_add NegInfinity _ = NegInfinity"
| "js_add _ NegInfinity = NegInfinity"

definition js_sub :: "number \<Rightarrow> number \<Rightarrow> number" where
  "js_sub a b = js_add a (js_neg b)"

fun js_mul :: "number \<Rightarrow> number \<Rightarrow> number" where
  "js_mul NaN _ = NaN"
| "js_mul _ NaN = NaN"
| "js_mul (Finite a) (Finite b) = round64 (a * b)"
| "js_mul (Finite a) Infinity =
     (if a = 0 then NaN else if 0 < a then Infinity else NegInfinity)"
| "js_mul (Finite a) NegInfinity =
     (if a = 0 then NaN else if 0 < a then NegInfinity else Infinity)"
| "js_mul Infinity (Finite b) =
     (if b = 0 then NaN else if 0 < b then Infinity else NegInfinity)"
| "js_mul NegInfinity (Finite b) =
     (if b = 0 then NaN else if 0 < b then NegInfinity else Infinity)"
| "js_mul Infinity Infinity = Infinity"
| "js_mul Infinity NegInfinity = NegInfinity"
| "js_mul NegInfinity Infinity = NegInfinity"
| "js_mul NegInfinity NegInfinity = Infinity"

fun js_lt :: "number \<Rightarrow> number \<Rightarrow> bool" where
  "js_lt NaN _ = False"
| "js_lt _ NaN = False"
| "js_lt (Finite a) (Finite b) = (a < b)"
| "js_lt _ NegInfinity = False"
| "js_lt NegInfinity _ = True"
| "js_lt Infinity _ = False"
| "js_lt _ Infinity = True"

definition js_gt :: "number \<Rightarrow> number \<Rightarrow> bool" where
  "js_gt a b = js_lt b a"

definition js_le :: "number \<Rightarrow> number \<Rightarrow> bool" where
  "js_le a b = (a \<noteq> NaN \<and> b \<noteq> NaN \<and> \<not> js_lt b a)"

text \<open>
  The floor and the ceiling of a double are doubles, so \<open>Math.floor\<close> and \<open>Math.ceil\<close>
  round nothing.
\<close>

fun Math_floor :: "number \<Rightarrow> number" where
  "Math_floor (Finite a) = Finite (of_int \<lfloor>a\<rfloor>)"
| "Math_floor n = n"

fun Math_ceil :: "number \<Rightarrow> number" where
  "Math_ceil (Finite a) = Finite (of_int \<lceil>a\<rceil>)"
| "Math_ceil n = n"

text \<open>
  \<open>Math.min\<close> starts from \<open>+Infinity\<close> and walks over its arguments: a \<open>NaN\<close> argument
  makes the result \<open>NaN\<close>, a smaller argument replaces the running value. With no
  argument the result is \<open>+Infinity\<close>. \<open>Math.max\<close> is the mirror image from
  \<open>-Infinity\<close>.
\<close>

fun Math_min_from :: "number \<Rightarrow> number list \<Rightarrow> number" where
  "Math_min_from lowest [] = lowest"
| "Math_min_from lowest (n # ns) =
     (if n = NaN then NaN
      else Math_min_from (if js_lt n lowest then n else lowest) ns)"

definition Math_min :: "number list \<Rightarrow> number" where
  "Math_min ns = Math_min_from Infinity ns"

fun Math_max_from :: "number \<Rightarrow> number list \<Rightarrow> number" where
  "Math_max_from highest [] = highest"
| "Math_max_from highest (n # ns) =
     (if n = NaN then NaN
      else Math_max_from (if js_gt n highest then n else highest) ns)"

definition Math_max :: "number list \<Rightarrow> number" where
  "Math_max ns = Math_max_from NegInfinity ns"

text \<open>
  A value is \<open>undefined\<close>, \<open>null\<close>, a boolean, a number, a string, or a reference to an
  object or array (\<open>Obj\<close>, compared by identity).
\<close>

datatype jsval = Undefined | Null | Bool bool | Num number | Str string | Obj nat

text \<open>\<open>typeof v === 'number'\<close>\<close>

fun typeof_number :: "jsval \<Rightarrow> bool" where
  "typeof_number (Num _) = True"
| "typeof_number _ = False"

text \<open>\<open>Boolean(v)\<close>, the truthiness that \<open>||\<close> and \<open>filter(Boolean)\<close> test.\<close>

fun truthy :: "jsval \<Rightarrow> bool" where
  "truthy Undefined = False"
| "truthy Null = False"
| "truthy (Bool b) = b"
| "truthy (Num n) = (n \<noteq> NaN \<and> n \<noteq> Finite 0)"
| "truthy (Str s) = (s \<noteq> [])"
| "truthy (Obj _) = True"

text \<open>\<open>a || b\<close> is \<open>a\<close> itself when \<open>a\<close> is truthy and \<open>b\<close> otherwise.\<close>

definition js_or :: "jsval \<Rightarrow> jsval \<Rightarrow> jsval" where
  "js_or a b = (if truthy a then a else b)"

text \<open>\<open>a === b\<close>: same type and same value, and \<open>NaN\<close> is equal to nothing.\<close>

definition strict_eq :: "jsval \<Rightarrow> jsval \<Rightarrow> bool" where
  "strict_eq a b = (a = b \<and> a \<noteq> Num NaN)"

section \<open>The performance chart\<close>

text \<open>
  A chart point is the object \<open>{ time, actual, is_violation }\<close> that
  \<open>processedChartData\<close> builds.
\<close>

record point =
  time :: jsval
  actual :: jsval
  is_violation :: jsval

text \<open>
  \<open>.filter(v => typeof v === 'number')\<close> on a list of values; what is kept are numbers.
\<close>

definition filter_numbers :: "jsval list \<Rightarrow> number list" where
  "filter_numbers vs = [n. Num n \<leftarrow> vs]"

text \<open>\<open>data.flatMap(p => [p.actual]).filter(v => typeof v === 'number')\<close>\<close>

definition allValues :: "point list \<Rightarrow> number list" where
  "allValues data = filter_numbers (concat (map (\<lambda>p. [actual p]) data))"

text \<open>
  The memoised render domain. The literal \<open>0.1\<close> is the double nearest to one tenth;
  \<open>0\<close>, \<open>20\<close> and \<open>100\<close> are doubles.
\<close>

definition yDomain :: "point list \<Rightarrow> number \<times> number" where
  "yDomain data =
     (if length (allValues data) = 0 then (Finite 0, Finite 100)
      else
        let minValue = Math_min (allValues data);
            maxValue = Math_max (allValues data);
            range = js_sub maxValue minValue;
            padding = (if js_gt range (Finite 0) then js_mul range (round64 (1 / 10))
                       else Finite 20)
        in (Math_floor (js_sub minValue padding), Math_ceil (js_add maxValue padding)))"

text \<open>
  The minimum and maximum of the chart component itself:
  \<open>Math.min(...data.map(p => p.actual).filter(v => typeof v === 'number'))\<close>.
\<close>

definition minValue :: "point list \<Rightarrow> number" where
  "minValue data = Math_min (filter_numbers (map actual data))"

definition maxValue :: "point list \<Rightarrow> number" where
  "maxValue data = Math_max (filter_numbers (map actual data))"

text \<open>
  \<open>data.find(p => p.actual === minValue)\<close>: the first such point, or \<open>undefined\<close>
  (\<open>None\<close>).
\<close>

definition minPoint :: "point list \<Rightarrow> point option" where
  "minPoint data = find (\<lambda>p. strict_eq (actual p) (Num (minValue data))) data"

definition maxPoint :: "point list \<Rightarrow> point option" where
  "maxPoint data = find (\<lambda>p. strict_eq (actual p) (Num (maxValue data))) data"

text \<open>
  \<open>[minPoint, maxPoint].filter(Boolean)\<close>: an object is truthy and \<open>undefined\<close> is not,
  so the filter keeps the points that were found.
\<close>

definition visibleMinMaxPoints :: "point list \<Rightarrow> point list" where
  "visibleMinMaxPoints data = [p. Some p \<leftarrow> [minPoint data, maxPoint data]]"

section \<open>Projection of the fetched readings\<close>

text \<open>
  A reading is an object of the parsed server response: a finite map from property
  names to values. Reading a property that the object does not have gives
  \<open>undefined\<close>.
\<close>

type_synonym reading = "string \<rightharpoonup> jsval"

definition property :: "reading \<Rightarrow> string \<Rightarrow> jsval" where
  "property obj k = (case obj k of None \<Rightarrow> Undefined | Some v \<Rightarrow> v)"

text \<open>
  \<open>UnknownParameter\<close> is the error that the design document names for the threshold
  store; no path of the source raises it. \<open>TypeError\<close> is what the language raises
  when a method is called on \<open>undefined\<close> or \<open>null\<close>.
\<close>

datatype error = TypeError | UnknownParameter

text \<open>
  The memoised projection of the dashboard. The state \<open>chartData\<close> is an array of
  readings, or a falsy value (\<open>None\<close>) when the response carried no \<open>data\<close>.
\<close>

definition processedChartData :: "reading list option \<Rightarrow> string \<Rightarrow> point list" where
  "processedChartData chartData selectedParameter =
     (case chartData of
        None \<Rightarrow> []
      | Some rows \<Rightarrow>
          if length rows = 0 then []
          else map (\<lambda>point.
                 \<lparr> time = property point ''time'',
                   actual = property point selectedParameter,
                   is_violation = js_or (property point ''is_violation'') (Bool False) \<rparr>) rows)"

text \<open>
  The older projection of \<open>frontend/src/App.js\<close> copies every property of the reading
  and then sets \<open>time\<close> and \<open>actual\<close>; it calls \<open>map\<close> with no guard.
\<close>

definition processedChartData_App :: "reading list option \<Rightarrow> string \<Rightarrow> error + reading list" where
  "processedChartData_App chartData selectedParameter =
     (case chartData of
        None \<Rightarrow> Inl TypeError
      | Some rows \<Rightarrow>
          Inr (map (\<lambda>point. point(''time'' \<mapsto> property point ''time'',
                                   ''actual'' \<mapsto> property point selectedParameter)) rows))"

section \<open>The threshold state\<close>

text \<open>
  The selected parameter and the ten threshold slots of the dashboard component, with
  the initial values of their \<open>useState\<close> calls.
\<close>

record dashboard =
  selectedParameter :: string
  metalTempThreshold :: number
  metalTempLowerThreshold :: number
  solidificationTimeThreshold :: number
  solidificationTimeLowerThreshold :: number
  tiltingAngleThreshold :: number
  tiltingAngleLowerThreshold :: number
  tiltingSpeedThreshold :: number
  tiltingSpeedLowerThreshold :: number
  topDieTempThreshold :: number
  topDieTempLowerThreshold :: number

definition initial :: dashboard where
  "initial =
     \<lparr> selectedParameter = ''metal_temperature'',
       metalTempThreshold = Finite 730,
       metalTempLowerThreshold = Finite 710,
       solidificationTimeThreshold = Finite 180,
       solidificationTimeLowerThreshold = Finite 180,
       tiltingAngleThreshold = Finite 90,
       tiltingAngleLowerThreshold = Finite 90,
       tiltingSpeedThreshold = Finite 8,
       tiltingSpeedLowerThreshold = Finite 6,
       topDieTempThreshold = Finite 380,
       topDieTempLowerThreshold = Finite 300 \<rparr>"

definition setSelectedParameter :: "dashboard \<Rightarrow> string \<Rightarrow> dashboard" where
  "setSelectedParameter st p = st\<lparr>selectedParameter := p\<rparr>"

record thresholds =
  upper :: jsval
  lower :: jsval

definition getCurrentThreshold :: "dashboard \<Rightarrow> error + thresholds" where
  "getCurrentThreshold st =
     (if selectedParameter st = ''metal_temperature'' then
        Inr \<lparr> upper = Num (metalTempThreshold st), lower = Num (metalTempLowerThreshold st) \<rparr>
      else if selectedParameter st = ''solidification_time'' then
        Inr \<lparr> upper = Num (solidificationTimeThreshold st),
              lower = Num (solidificationTimeLowerThreshold st) \<rparr>
      else if selectedParameter st = ''tilting_angle'' then
        Inr \<lparr> upper = Num (tiltingAngleThreshold st),
              lower = Num (tiltingAngleLowerThreshold st) \<rparr>
      else if selectedParameter st = ''tilting_speed'' then
        Inr \<lparr> upper = Num (tiltingSpeedThreshold st),
              lower = Num (tiltingSpeedLowerThreshold st) \<rparr>
      else if selectedParameter st = ''top_die_temperature'' then
        Inr \<lparr> upper = Num (topDieTempThreshold st),
              lower = Num (topDieTempLowerThreshold st) \<rparr>
      else Inr \<lparr> upper = Undefined, lower = Undefined \<rparr>)"

text \<open>
  \<open>parseInt(value, 10)\<close> on a string: leading white space is skipped, one sign is
  read, then the longest run of decimal digits; with no digit the result is \<open>NaN\<close>,
  otherwise the double nearest to the integer read.
  Strings are byte strings here, so the white space is the ASCII one (tab, line feed,
  vertical tab, form feed, carriage return, space).
\<close>

definition is_white_space :: "char \<Rightarrow> bool" where
  "is_white_space c = (of_char c \<in> {9, 10, 11, 12, 13, 32 :: nat})"

definition is_digit :: "char \<Rightarrow> bool" where
  "is_digit c = (48 \<le> (of_char c :: nat) \<and> (of_char c :: nat) \<le> 57)"

definition digits_value :: "string \<Rightarrow> int" where
  "digits_value z = foldl (\<lambda>acc c. 10 * acc + (int (of_char c) - 48)) 0 z"

definition parseInt :: "string \<Rightarrow> number" where
  "parseInt inputString =
     (let s = dropWhile is_white_space inputString;
          sign = (if s \<noteq> [] \<and> hd s = CHR ''-'' then - 1 else 1);
          s' = (if s \<noteq> [] \<and> (hd s = CHR ''+'' \<or> hd s = CHR ''-'') then tl s else s);
          z = takeWhile is_digit s'
      in if z = [] then NaN else round64 (of_int (sign * digits_value z)))"

definition isNaN :: "number \<Rightarrow> bool" where
  "isNaN n = (n = NaN)"

text \<open>
  The handler of the two threshold inputs. Any \<open>type\<close> other than \<open>'upper'\<close> writes
  the lower slot, as the conditional expression of the source does.
\<close>

definition updateThreshold :: "dashboard \<Rightarrow> string \<Rightarrow> string \<Rightarrow> error + dashboard" where
  "updateThreshold st type value =
     (let numValue = parseInt value in
      if isNaN numValue then Inr st
      else if selectedParameter st = ''metal_temperature'' then
        Inr (if type = ''upper'' then st\<lparr>metalTempThreshold := numValue\<rparr>
             else st\<lparr>metalTempLowerThreshold := numValue\<rparr>)
      else if selectedParameter st = ''solidification_time'' then
        Inr (if type = ''upper'' then st\<lparr>solidificationTimeThreshold := numValue\<rparr>
             else st\<lparr>solidificationTimeLowerThreshold := numValue\<rparr>)
      else if selectedParameter st = ''tilting_angle'' then
        Inr (if type = ''upper'' then st\<lparr>tiltingAngleThreshold := numValue\<rparr>
             else st\<lparr>tiltingAngleLowerThreshold := numValue\<rparr>)
      else if selectedParameter st = ''tilting_speed'' then
        Inr (if type = ''upper'' then st\<lparr>tiltingSpeedThreshold := numValue\<rparr>
             else st\<lparr>tiltingSpeedLowerThreshold := numValue\<rparr>)
      else if selectedParameter st = ''top_die_temperature'' then
        Inr (if type = ''upper'' then st\<lparr>topDieTempThreshold := numValue\<rparr>
             else st\<lparr>topDieTempLowerThreshold := numValue\<rparr>)
      else Inr st)"

text \<open>The five parameters that the dashboard offers.\<close>

definition parameters :: "string list" where
  "parameters =
     [''metal_temperature'', ''solidification_time'', ''tilting_angle'',
      ''tilting_speed'', ''top_die_temperature'']"

section \<open>Reference definitions\<close>

text \<open>
  The defined numeric values of a series, in order, and the series whose numeric
  values are all finite (the numbers that a parsed server response holds).
\<close>

definition defined_values :: "point list \<Rightarrow> real list" where
  "defined_values data = [x. Num (Finite x) \<leftarrow> map actual data]"

definition finite_values :: "point list \<Rightarrow> bool" where
  "finite_values data =
     list_all (\<lambda>p. case actual p of Num (Finite _) \<Rightarrow> True | Num _ \<Rightarrow> False | _ \<Rightarrow> True) data"

text \<open>
  The series whose numeric values are doubles, as the numbers of a parsed server
  response are.
\<close>

definition double_values :: "point list \<Rightarrow> bool" where
  "double_values data =
     list_all (\<lambda>p. case actual p of Num (Finite x) \<Rightarrow> round64 x = Finite x
                                   | Num _ \<Rightarrow> False | _ \<Rightarrow> True) data"

text \<open>The render domain as the design document words it, in exact arithmetic.\<close>

definition domain_reference :: "point list \<Rightarrow> int \<times> int" where
  "domain_reference data =
     (let vs = defined_values data in
      if vs = [] then (0, 100)
      else
        let lo = Min (set vs); hi = Max (set vs); range = hi - lo;
            padding = (if 0 < range then range / 10 else 20)
        in (\<lfloor>lo - padding\<rfloor>, \<lceil>hi + padding\<rceil>))"

text \<open>
  The same definition with the subtraction, the multiplication and the two additions of
  the language, each rounded to the nearest double.
\<close>

definition domain_rounded :: "point list \<Rightarrow> number \<times> number" where
  "domain_rounded data =
     (let vs = defined_values data in
      if vs = [] then (Finite 0, Finite 100)
      else
        let lo = Finite (Min (set vs)); hi = Finite (Max (set vs));
            range = js_sub hi lo;
            padding = (if js_gt range (Finite 0) then js_mul range (round64 (1 / 10))
                       else Finite 20)
        in (Math_floor (js_sub lo padding), Math_ceil (js_add hi padding)))"

text \<open>
  The three series of the end-to-end scenarios of the design document: three distinct
  readings, two readings with no value, and three equal readings.
\<close>

definition scenario_A :: "point list" where
  "scenario_A =
     [\<lparr> time = Str ''0'', actual = Num (Finite 705), is_violation = Bool True \<rparr>,
      \<lparr> time = Str ''1'', actual = Num (Finite 715), is_violation = Bool False \<rparr>,
      \<lparr> time = Str ''2'', actual = Num (Finite 725), is_violation = Bool False \<rparr>]"

definition scenario_B :: "point list" where
  "scenario_B =
     [\<lparr> time = Str ''0'', actual = Undefined, is_violation = Bool False \<rparr>,
      \<lparr> time = Str ''1'', actual = Undefined, is_violation = Bool False \<rparr>]"

definition scenario_C :: "point list" where
  "scenario_C =
     [\<lparr> time = Str ''0'', actual = Num (Finite 50), is_violation = Bool False \<rparr>,
      \<lparr> time = Str ''1'', actual = Num (Finite 50), is_violation = Bool False \<rparr>,
      \<lparr> time = Str ''2'', actual = Num (Finite 50), is_violation = Bool False \<rparr>]"

text \<open>
  A series of two readings, \<open>0.3\<close> and \<open>3.3\<close> as the parser of the response reads these
  literals, and a series of two large readings, the doubles nearest to \<open>1e308\<close> and
  \<open>-1e308\<close>.
\<close>

definition series_small :: "point list" where
  "series_small =
     [\<lparr> time = Str ''0'', actual = Num (round64 (3 / 10)), is_violation = Bool False \<rparr>,
      \<lparr> time = Str ''1'', actual = Num (round64 (33 / 10)), is_violation = Bool False \<rparr>]"

definition series_large :: "point list" where
  "series_large =
     [\<lparr> time = Str ''0'', actual = Num (Finite (5010420900022432 * 2 ^ 971)),
         is_violation = Bool False \<rparr>,
      \<lparr> time = Str ''1'', actual = Num (Finite (- (5010420900022432 * 2 ^ 971))),
         is_violation = Bool False \<rparr>]"

text \<open>
  Three fetched readings: one with a temperature and a boolean flag, one with no
  temperature and the number 1 as flag, one with a \<open>null\<close> temperature and no flag.
\<close>

definition readings_A :: "reading list" where
  "readings_A =
     [[''time'' \<mapsto> Str ''0'', ''metal_temperature'' \<mapsto> Num (Finite 705), ''is_violation'' \<mapsto> Bool True],
      [''time'' \<mapsto> Str ''1'', ''is_violation'' \<mapsto> Num (Finite 1)],
      [''time'' \<mapsto> Str ''2'', ''metal_temperature'' \<mapsto> Null]]"

section \<open>Properties of the rounding\<close>

lemmas round64_eval =
  round64_def round_pos_def quantum_def overflow_bound_def binade_def
  bitlength.simps round_half_even_def Let_def

lemma bitlength_bounds:
  "0 < n \<Longrightarrow> 2 ^ (bitlength n - 1) \<le> n \<and> n < 2 ^ bitlength n"
proof (induction n rule: less_induct)
  case (less n)
  show ?case
  proof (cases "n div 2 = 0")
    case True
    with less.prems have "n = 1" by presburger
    then show ?thesis by (simp add: bitlength.simps)
  next
    case False
    define m where "m = n div 2"
    define b where "b = bitlength m"
    have m: "0 < m" "m < n" using False less.prems by (simp_all add: m_def)
    from less.IH [OF m(2) m(1)] have ih: "2 ^ (b - 1) \<le> m" "m < 2 ^ b"
      by (simp_all add: b_def)
    have b: "0 < b"
      using m(1) by (simp add: b_def bitlength.simps [of m])
    have bn: "bitlength n = Suc b"
      using less.prems by (simp add: bitlength.simps [of n] b_def m_def)
    have "2 * m \<le> n" "n < 2 * (m + 1)"
      by (simp_all add: m_def)
    moreover have "(2::nat) ^ b = 2 * 2 ^ (b - 1)"
      using b by (cases b) simp_all
    ultimately show ?thesis
      using ih by (simp add: bn)
  qed
qed

lemma bitlength_pos: "0 < n \<Longrightarrow> 0 < bitlength n"
  by (simp add: bitlength.simps [of n])

lemma binade_bounds:
  assumes "0 < a"
  shows "2 powi binade a \<le> a \<and> a < 2 powi (binade a + 1)"
proof (cases "1 \<le> a")
  case True
  define n where "n = nat \<lfloor>a\<rfloor>"
  define l where "l = bitlength n"
  have n: "0 < n" using True by (simp add: n_def)
  have l: "0 < l" using n by (simp add: l_def bitlength_pos)
  from bitlength_bounds [OF n] have bb: "2 ^ (l - 1) \<le> n" "n < 2 ^ l"
    by (simp_all add: l_def)
  have e: "binade a = int l - 1"
    using True by (simp add: binade_def l_def n_def)
  have na: "real n \<le> a" "a < real n + 1"
    using True by (simp_all add: n_def)
  have p1: "(2::real) powi (int l - 1) = 2 ^ (l - 1)"
    using l by (simp add: power_int_def nat_diff_distrib')
  have p2: "(2::real) powi (int l - 1 + 1) = 2 ^ l"
    by simp
  have "real (2 ^ (l - 1)) \<le> real n"
    using bb(1) by (rule of_nat_mono)
  then have r1: "(2::real) ^ (l - 1) \<le> real n"
    by simp
  have "real (Suc n) \<le> real (2 ^ l)"
    using bb(2) by (intro of_nat_mono) simp
  then have r2: "real n + 1 \<le> 2 ^ l"
    by simp
  have "(2::real) ^ (l - 1) \<le> a" using r1 na(1) by linarith
  moreover have "a < 2 ^ l" using r2 na(2) by linarith
  ultimately show ?thesis
    by (simp only: e p1 p2 simp_thms)
next
  case False
  define k where "k = nat (\<lceil>1 / a\<rceil> - 1)"
  define l where "l = bitlength k"
  have inv: "1 < 1 / a" using False assms by simp
  have c: "1 < \<lceil>1 / a\<rceil>" using inv assms by (simp add: less_ceiling_iff)
  have k: "0 < k" using c by (simp add: k_def)
  have "real k = of_int (\<lceil>1 / a\<rceil> - 1)"
    unfolding k_def using c by (intro of_nat_nat) linarith
  then have kc: "real k = of_int \<lceil>1 / a\<rceil> - 1"
    by simp
  from bitlength_bounds [OF k] have bb: "2 ^ (l - 1) \<le> k" "k < 2 ^ l"
    by (simp_all add: l_def)
  have l: "0 < l" using k by (simp add: l_def bitlength_pos)
  have e: "binade a = - int l"
    using False by (simp add: binade_def l_def k_def)
  have ka: "real k < 1 / a" "1 / a \<le> real k + 1"
    using ceiling_correct [of "1 / a"] kc by linarith+
  have "real (2 ^ (l - 1)) \<le> real k"
    using bb(1) by (rule of_nat_mono)
  then have "(2::real) ^ (l - 1) \<le> real k"
    by simp
  then have up: "2 ^ (l - 1) < 1 / a"
    using ka(1) by linarith
  have "real (Suc k) \<le> real (2 ^ l)"
    using bb(2) by (intro of_nat_mono) simp
  then have "real k + 1 \<le> 2 ^ l"
    by simp
  then have lo: "1 / a \<le> 2 ^ l"
    using ka(2) by linarith
  have p1: "(2::real) powi (- int l) = 1 / 2 ^ l"
    by (simp add: power_int_minus_divide)
  have p2: "(2::real) powi (- int l + 1) = 1 / 2 ^ (l - 1)"
  proof -
    have "- int l + 1 = - int (l - 1)" using l by simp
    then show ?thesis by (simp only: power_int_minus_divide power_int_of_nat)
  qed
  have "1 / 2 ^ l \<le> a"
    using lo assms by (simp add: field_simps)
  moreover have "a < 1 / 2 ^ (l - 1)"
    using up assms by (simp add: field_simps)
  ultimately show ?thesis
    by (simp only: e p1 p2 simp_thms)
qed

lemma round_half_even_lower: "\<lfloor>r\<rfloor> \<le> round_half_even r"
  by (simp add: round_half_even_def Let_def)

lemma round_half_even_upper: "round_half_even r \<le> \<lceil>r\<rceil>"
proof (cases "r = of_int \<lfloor>r\<rfloor>")
  case True
  then have "r - of_int \<lfloor>r\<rfloor> = 0" by simp
  then have "round_half_even r = \<lfloor>r\<rfloor>"
    by (simp add: round_half_even_def Let_def)
  then show ?thesis by simp
next
  case False
  then have "\<lceil>r\<rceil> = \<lfloor>r\<rfloor> + 1" by (simp add: ceiling_altdef)
  then show ?thesis by (simp add: round_half_even_def Let_def)
qed

lemma round_half_even_of_int: "round_half_even (of_int k) = k"
  by (simp add: round_half_even_def Let_def)

lemma binade_mono:
  assumes "0 < a" and "a \<le> b"
  shows "binade a \<le> binade b"
proof (rule ccontr)
  assume "\<not> binade a \<le> binade b"
  then have "binade b + 1 \<le> binade a" by simp
  then have "(2::real) powi (binade b + 1) \<le> 2 powi binade a"
    by (intro power_int_increasing) simp_all
  moreover have "2 powi binade a \<le> a" using binade_bounds [OF assms(1)] by simp
  moreover have "b < 2 powi (binade b + 1)" using binade_bounds [of b] assms by simp
  ultimately show False using assms(2) by linarith
qed

lemma quantum_pos: "0 < quantum a"
  by (simp add: quantum_def)

lemma quantum_mono:
  assumes "0 < a" and "a \<le> b"
  shows "\<exists>n::nat. quantum b = quantum a * 2 ^ n"
proof -
  define ea where "ea = max (binade a) (- 1022)"
  define eb where "eb = max (binade b) (- 1022)"
  have "ea \<le> eb" using binade_mono [OF assms] by (simp add: ea_def eb_def)
  define n where "n = nat (eb - ea)"
  have "eb - 52 = (ea - 52) + int n" using \<open>ea \<le> eb\<close> by (simp add: n_def)
  then have "(2::real) powi (eb - 52) = 2 powi ((ea - 52) + int n)"
    by (rule arg_cong)
  also have "\<dots> = 2 powi (ea - 52) * 2 powi int n"
    by (rule power_int_add) simp
  finally have "(2::real) powi (eb - 52) = 2 powi (ea - 52) * 2 powi int n" .
  then have "quantum b = quantum a * 2 ^ n"
    by (simp add: quantum_def ea_def eb_def)
  then show ?thesis ..
qed

lemma round_pos_double:
  assumes "round_pos v = Finite v"
  shows "\<exists>k::int. v = of_int k * quantum v" and "v < overflow_bound"
proof -
  from assms have y: "of_int (round_half_even (v / quantum v)) * quantum v = v"
    and "\<not> overflow_bound \<le> v"
    by (auto simp: round_pos_def Let_def split: if_splits)
  then show "v < overflow_bound" by simp
  from y [symmetric] show "\<exists>k::int. v = of_int k * quantum v" ..
qed

lemma round_pos_le:
  assumes "0 < a" and "a \<le> v" and "round_pos v = Finite v"
  shows "\<exists>y. round_pos a = Finite y \<and> y \<le> v"
proof -
  from round_pos_double [OF assms(3)] obtain k :: int
    where k: "v = of_int k * quantum v" and fin: "v < overflow_bound" by blast
  from quantum_mono [OF assms(1,2)] obtain n :: nat
    where n: "quantum v = quantum a * 2 ^ n" ..
  define m :: int where "m = k * 2 ^ n"
  have v: "v = of_int m * quantum a"
    by (subst k) (simp add: n m_def)
  have qa: "0 < quantum a" by (rule quantum_pos)
  have "a / quantum a \<le> of_int m"
    using assms(2) qa by (simp add: v field_simps)
  then have "\<lceil>a / quantum a\<rceil> \<le> m" by (simp add: ceiling_le)
  with round_half_even_upper [of "a / quantum a"]
  have "round_half_even (a / quantum a) \<le> m" by linarith
  then have "real_of_int (round_half_even (a / quantum a)) \<le> of_int m" by simp
  then have y: "of_int (round_half_even (a / quantum a)) * quantum a \<le> v"
    using qa by (simp add: v)
  with fin have "\<not> overflow_bound \<le> of_int (round_half_even (a / quantum a)) * quantum a"
    by linarith
  then have "round_pos a = Finite (of_int (round_half_even (a / quantum a)) * quantum a)"
    by (simp add: round_pos_def Let_def)
  with y show ?thesis by blast
qed

lemma round_pos_value_ge:
  assumes "0 < v" and "v \<le> a" and "round_pos v = Finite v"
  shows "v \<le> of_int (round_half_even (a / quantum a)) * quantum a"
proof -
  from round_pos_double [OF assms(3)] obtain k :: int
    where k: "v = of_int k * quantum v" by blast
  have a: "0 < a" using assms by linarith
  have qa: "0 < quantum a" by (rule quantum_pos)
  define ea where "ea = max (binade a) (- 1022)"
  define ev where "ev = max (binade v) (- 1022)"
  have le: "ev \<le> ea" using binade_mono [OF assms(1,2)] by (simp add: ea_def ev_def)
  show ?thesis
  proof (cases "ev = ea")
    case True
    then have q: "quantum v = quantum a" by (simp add: quantum_def ea_def ev_def)
    have v: "v = of_int k * quantum a" using k by (simp only: q)
    have "of_int k \<le> a / quantum a"
      using assms(2) qa by (simp add: v field_simps)
    then have "k \<le> \<lfloor>a / quantum a\<rfloor>" by (simp add: le_floor_iff)
    with round_half_even_lower [of "a / quantum a"]
    have "k \<le> round_half_even (a / quantum a)" by linarith
    then have "real_of_int k \<le> of_int (round_half_even (a / quantum a))" by simp
    then show ?thesis using qa by (simp add: v)
  next
    case False
    with le have lt: "ev + 1 \<le> ea" by simp
    then have "- 1022 < ea" by (simp add: ev_def)
    then have ea: "ea = binade a" by (simp add: ea_def)
    have pa: "2 powi ea \<le> a" using binade_bounds [OF a] by (simp add: ea)
    have "ea = (ea - 52) + 52" by simp
    then have "(2::real) powi ea = 2 powi (ea - 52) * 2 powi 52"
      by (metis power_int_add zero_neq_numeral)
    then have split: "(2::real) powi ea = of_int (2 ^ 52) * quantum a"
      by (simp add: quantum_def ea_def)
    have "of_int (2 ^ 52) \<le> a / quantum a"
      using pa qa by (simp only: split) (simp add: field_simps)
    then have "2 ^ 52 \<le> \<lfloor>a / quantum a\<rfloor>" by (simp only: le_floor_iff)
    with round_half_even_lower [of "a / quantum a"]
    have "2 ^ 52 \<le> round_half_even (a / quantum a)" by linarith
    then have "real_of_int (2 ^ 52) \<le> of_int (round_half_even (a / quantum a))"
      by (simp only: of_int_le_iff)
    then have "of_int (2 ^ 52) * quantum a \<le> of_int (round_half_even (a / quantum a)) * quantum a"
      using qa by (simp only: mult_le_cancel_right_pos)
    then have big: "2 powi ea \<le> of_int (round_half_even (a / quantum a)) * quantum a"
      by (simp only: split)
    have "v < 2 powi (binade v + 1)" using binade_bounds [OF assms(1)] by simp
    also have "\<dots> \<le> 2 powi (ev + 1)"
      by (intro power_int_increasing) (simp_all add: ev_def)
    also have "\<dots> \<le> 2 powi ea"
      using lt by (intro power_int_increasing) simp_all
    finally show ?thesis using big by linarith
  qed
qed

lemma round_pos_ge:
  assumes "0 < v" and "v \<le> a" and "round_pos v = Finite v"
  shows "round_pos a = Infinity \<or> (\<exists>y. round_pos a = Finite y \<and> v \<le> y)"
  using round_pos_value_ge [OF assms] by (simp add: round_pos_def Let_def)

lemma round_pos_nonneg:
  assumes "0 < a"
  shows "round_pos a = Infinity \<or> (\<exists>y. round_pos a = Finite y \<and> 0 \<le> y)"
proof -
  have "0 \<le> a / quantum a" using assms quantum_pos [of a] by simp
  then have "0 \<le> \<lfloor>a / quantum a\<rfloor>" by simp
  with round_half_even_lower [of "a / quantum a"]
  have "0 \<le> round_half_even (a / quantum a)" by linarith
  then have "0 \<le> real_of_int (round_half_even (a / quantum a)) * quantum a"
    using quantum_pos [of a] by simp
  then show ?thesis by (simp add: round_pos_def Let_def)
qed

lemma round64_not_NaN: "round64 x \<noteq> NaN"
  by (auto simp: round64_def round_pos_def Let_def)

lemma round64_le:
  assumes "round64 v = Finite v" and "x \<le> v"
  shows "js_le (round64 x) (Finite v)"
proof -
  consider "x = 0" | "0 < x" | "x < 0" "0 \<le> v" | "x < 0" "v < 0" by linarith
  then show ?thesis
  proof cases
    case 1
    with assms(2) show ?thesis by (simp add: round64_def js_le_def)
  next
    case 2
    with assms have "round_pos v = Finite v" by (simp add: round64_def)
    from round_pos_le [OF 2 assms(2) this] 2 show ?thesis
      by (auto simp: round64_def js_le_def)
  next
    case 3
    then have "0 < - x" by simp
    from round_pos_nonneg [OF this] 3 show ?thesis
      by (auto simp: round64_def js_le_def)
  next
    case 4
    with assms(1) have "js_neg (round_pos (- v)) = Finite v" by (simp add: round64_def)
    then have r: "round_pos (- v) = Finite (- v)"
      by (cases "round_pos (- v)") simp_all
    have "0 < - v" "- v \<le> - x" using 4 assms(2) by simp_all
    from round_pos_ge [OF this r] 4 show ?thesis
      by (auto simp: round64_def js_le_def)
  qed
qed

lemma round64_ge:
  assumes "round64 v = Finite v" and "v \<le> x"
  shows "js_le (Finite v) (round64 x)"
proof -
  consider "x = 0" | "x < 0" | "0 < x" "v \<le> 0" | "0 < x" "0 < v" by linarith
  then show ?thesis
  proof cases
    case 1
    with assms(2) show ?thesis by (simp add: round64_def js_le_def)
  next
    case 2
    then have v: "v < 0" using assms(2) by simp
    with assms(1) have "js_neg (round_pos (- v)) = Finite v" by (simp add: round64_def)
    then have r: "round_pos (- v) = Finite (- v)"
      by (cases "round_pos (- v)") simp_all
    have "0 < - x" "- x \<le> - v" using 2 assms(2) by simp_all
    from round_pos_le [OF this r] 2 show ?thesis
      by (auto simp: round64_def js_le_def)
  next
    case 3
    from round_pos_nonneg [OF 3(1)] 3 show ?thesis
      by (auto simp: round64_def js_le_def)
  next
    case 4
    with assms(1) have r: "round_pos v = Finite v" by (simp add: round64_def)
    from round_pos_ge [OF 4(2) assms(2) r] 4 show ?thesis
      by (auto simp: round64_def js_le_def)
  qed
qed

lemma round64_zero: "round64 0 = Finite 0"
  by (simp add: round64_def)

lemma round64_nonneg:
  "0 \<le> x \<Longrightarrow> round64 x = Infinity \<or> (\<exists>y. round64 x = Finite y \<and> 0 \<le> y)"
  using round64_ge [OF round64_zero, of x] round64_not_NaN [of x]
  by (cases "round64 x") (simp_all add: js_le_def)

text \<open>Some roundings: a tie goes to the even significand.\<close>

lemma round64_ties:
  "round64 (2 ^ 53 + 1) = Finite (2 ^ 53)"
  "round64 (2 ^ 53 + 3) = Finite (2 ^ 53 + 4)"
  "round64 (- (2 ^ 53 + 3)) = Finite (- (2 ^ 53 + 4))"
  by (simp_all add: round64_eval)

lemma round64_tenth: "round64 (1 / 10) = Finite (3602879701896397 / 2 ^ 55)"
  by (simp add: round64_def round_pos_def quantum_def overflow_bound_def binade_def
        bitlength.simps round_half_even_def Let_def)

text \<open>A padding is an infinity or a finite number that is not negative.\<close>

lemma padding_nonneg:
  assumes "lo \<le> hi"
  shows "(let range = js_sub (Finite hi) (Finite lo) in
          if js_gt range (Finite 0) then js_mul range (round64 (1 / 10)) else Finite 20)
         \<in> insert Infinity {Finite p |p. 0 \<le> p}"
proof -
  have "0 \<le> hi + - lo" using assms by simp
  from round64_nonneg [OF this]
  consider "round64 (hi + - lo) = Infinity"
    | r where "round64 (hi + - lo) = Finite r" "0 \<le> r" by blast
  then show ?thesis
  proof cases
    case 1
    then show ?thesis
      by (simp add: js_sub_def js_gt_def round64_tenth Let_def)
  next
    case 2
    have "0 \<le> r * (3602879701896397 / 2 ^ 55)" using 2(2) by simp
    from round64_nonneg [OF this] 2 show ?thesis
      by (auto simp add: js_sub_def js_gt_def round64_tenth Let_def)
  qed
qed

lemma lower_bound:
  assumes "round64 v = Finite v" and "pad \<in> insert Infinity {Finite p |p. 0 \<le> p}"
  shows "js_le (Math_floor (js_sub (Finite v) pad)) (Finite v)"
proof (cases "pad = Infinity")
  case True
  then show ?thesis by (simp add: js_sub_def js_le_def)
next
  case False
  with assms(2) obtain p where p: "pad = Finite p" "0 \<le> p" by auto
  have "js_le (round64 (v - p)) (Finite v)"
    using p(2) by (intro round64_le assms(1)) simp
  then show ?thesis
  proof (cases "round64 (v - p)")
    case (Finite y)
    with \<open>js_le (round64 (v - p)) (Finite v)\<close> have "y \<le> v" by (simp add: js_le_def)
    moreover have "of_int \<lfloor>y\<rfloor> \<le> y" by simp
    ultimately have "of_int \<lfloor>y\<rfloor> \<le> v" by linarith
    then show ?thesis by (simp add: p js_sub_def Finite js_le_def)
  qed (simp_all add: p js_sub_def js_le_def)
qed

lemma upper_bound:
  assumes "round64 v = Finite v" and "pad \<in> insert Infinity {Finite p |p. 0 \<le> p}"
  shows "js_le (Finite v) (Math_ceil (js_add (Finite v) pad))"
proof (cases "pad = Infinity")
  case True
  then show ?thesis by (simp add: js_le_def)
next
  case False
  with assms(2) obtain p where p: "pad = Finite p" "0 \<le> p" by auto
  have "js_le (Finite v) (round64 (v + p))"
    using p(2) by (intro round64_ge assms(1)) simp
  then show ?thesis
  proof (cases "round64 (v + p)")
    case (Finite y)
    with \<open>js_le (Finite v) (round64 (v + p))\<close> have "v \<le> y" by (simp add: js_le_def)
    moreover have "y \<le> of_int \<lceil>y\<rceil>" by simp
    ultimately have "v \<le> of_int \<lceil>y\<rceil>" by linarith
    then show ?thesis by (simp add: p Finite js_le_def)
  qed (simp_all add: p js_le_def)
qed

lemma js_le_trans_Finite:
  "js_le a (Finite x) \<Longrightarrow> x \<le> y \<Longrightarrow> js_le a (Finite y)"
  "js_le (Finite y) b \<Longrightarrow> x \<le> y \<Longrightarrow> js_le (Finite x) b"
  by (cases a; simp add: js_le_def) (cases b; simp add: js_le_def)

section \<open>Properties of the render domain\<close>

lemma Math_min_from_Finite:
  "Math_min_from (Finite a) (map Finite xs) = Finite (fold min xs a)"
  by (induction xs arbitrary: a) (simp_all add: min_def)

lemma Math_max_from_Finite:
  "Math_max_from (Finite a) (map Finite xs) = Finite (fold max xs a)"
  by (induction xs arbitrary: a) (simp_all add: max_def js_gt_def)

lemma Math_min_Finite:
  "xs \<noteq> [] \<Longrightarrow> Math_min (map Finite xs) = Finite (Min (set xs))"
  by (cases xs) (simp_all add: Math_min_def Math_min_from_Finite Min.set_eq_fold [symmetric])

lemma Math_max_Finite:
  "xs \<noteq> [] \<Longrightarrow> Math_max (map Finite xs) = Finite (Max (set xs))"
  by (cases xs) (simp_all add: Math_max_def Math_max_from_Finite Max.set_eq_fold [symmetric] js_gt_def)

lemma filter_numbers_finite:
  "finite_values data \<Longrightarrow>
     filter_numbers (map actual data) = map Finite (defined_values data)"
  by (induction data)
     (auto simp: finite_values_def filter_numbers_def defined_values_def
           split: jsval.splits number.splits)

lemma allValues_finite:
  "finite_values data \<Longrightarrow> allValues data = map Finite (defined_values data)"
  by (induction data)
     (auto simp: finite_values_def filter_numbers_def defined_values_def allValues_def
           split: jsval.splits number.splits)

lemma yDomain_finite:
  assumes "finite_values data" and "defined_values data \<noteq> []"
    and lo: "lo = Min (set (defined_values data))"
    and hi: "hi = Max (set (defined_values data))"
  shows "yDomain data =
     (let range = js_sub (Finite hi) (Finite lo);
          padding = (if js_gt range (Finite 0) then js_mul range (round64 (1 / 10))
                     else Finite 20)
      in (Math_floor (js_sub (Finite lo) padding), Math_ceil (js_add (Finite hi) padding)))"
proof -
  have all: "allValues data = map Finite (defined_values data)"
    using assms(1) by (rule allValues_finite)
  have ne: "length (allValues data) \<noteq> 0"
    using assms(2) by (simp add: all)
  have mn: "Math_min (allValues data) = Finite lo"
    unfolding all lo using assms(2) by (rule Math_min_Finite)
  have mx: "Math_max (allValues data) = Finite hi"
    unfolding all hi using assms(2) by (rule Math_max_Finite)
  show ?thesis
    unfolding yDomain_def mn mx using ne by (simp only: if_False Let_def)
qed

lemma yDomain_empty:
  "finite_values data \<Longrightarrow> defined_values data = [] \<Longrightarrow> yDomain data = (Finite 0, Finite 100)"
  by (simp add: yDomain_def allValues_finite)

lemma series_small_values:
  "round64 (3 / 10) = Finite (5404319552844595 / 2 ^ 54)"
  "round64 (33 / 10) = Finite (3715469692580659 / 2 ^ 50)"
  by (simp_all add: round64_eval)

lemma series_small_steps:
  "js_sub (Finite (3715469692580659 / 2 ^ 50)) (Finite (5404319552844595 / 2 ^ 54)) = Finite 3"
  "js_mul (Finite 3) (round64 (1 / 10)) = Finite (5404319552844596 / 2 ^ 54)"
  "js_sub (Finite (5404319552844595 / 2 ^ 54)) (Finite (5404319552844596 / 2 ^ 54)) =
     Finite (- (1 / 2 ^ 54))"
  "Math_floor (Finite (- (1 / 2 ^ 54))) = Finite (- 1)"
  by (simp_all add: js_sub_def round64_tenth) (simp_all add: round64_eval)

text \<open>
  Claim C1, as the code has it. On every series whose numeric values are finite, the
  render domain that \<open>yDomain\<close> computes is the reference definition taken in the
  arithmetic of the language: \<open>[0, 100]\<close> when the series has no defined numeric value;
  otherwise, with the minimum and the maximum of the defined values, the range is their
  difference rounded to the nearest double, the padding is the rounded product of the
  range and the double nearest to one tenth when the range is positive and 20 when it is
  not, and the domain is the floor of the rounded difference of the minimum and the
  padding and the ceiling of the rounded sum of the maximum and the padding. The exact
  reference definition differs from it: for the readings 0.3 and 3.3 the code gives
  \<open>[-1, 4]\<close> where exact arithmetic gives \<open>[0, 4]\<close>.
\<close>

theorem yDomain_rounded:
  "finite_values data \<Longrightarrow> yDomain data = domain_rounded data"
proof (cases "defined_values data = []")
  case True
  assume "finite_values data"
  then show ?thesis using True by (simp add: yDomain_empty domain_rounded_def)
next
  case False
  assume "finite_values data"
  from yDomain_finite [OF this False refl refl] False show ?thesis
    by (simp only: domain_rounded_def Let_def if_False)
qed

theorem yDomain_rounded_witness:
  "finite_values scenario_A \<and> domain_rounded scenario_A = (Finite 703, Finite 727) \<and>
   yDomain scenario_A = (Finite 703, Finite 727)"
proof -
  have f: "finite_values scenario_A"
    by (simp add: scenario_A_def finite_values_def)
  have r: "domain_rounded scenario_A = (Finite 703, Finite 727)"
    by (simp add: scenario_A_def defined_values_def domain_rounded_def js_sub_def js_gt_def
          round64_tenth)
       (simp add: round64_eval)
  from yDomain_rounded [OF f] f r show ?thesis by simp
qed

theorem yDomain_exact_counterexample:
  "finite_values series_small \<and>
   yDomain series_small = (Finite (- 1), Finite 4) \<and>
   domain_reference series_small = (0, 4)"
proof -
  have s: "series_small =
     [\<lparr> time = Str ''0'', actual = Num (Finite (5404319552844595 / 2 ^ 54)),
         is_violation = Bool False \<rparr>,
      \<lparr> time = Str ''1'', actual = Num (Finite (3715469692580659 / 2 ^ 50)),
         is_violation = Bool False \<rparr>]"
    by (simp only: series_small_def series_small_values)
  have f: "finite_values series_small"
    by (simp add: s finite_values_def)
  have a: "allValues series_small =
      [Finite (5404319552844595 / 2 ^ 54), Finite (3715469692580659 / 2 ^ 50)]"
    by (simp add: s allValues_def filter_numbers_def)
  have mn: "Math_min (allValues series_small) = Finite (5404319552844595 / 2 ^ 54)"
    by (simp add: a Math_min_def)
  have mx: "Math_max (allValues series_small) = Finite (3715469692580659 / 2 ^ 50)"
    by (simp add: a Math_max_def js_gt_def)
  have up: "Math_ceil (js_add (Finite (3715469692580659 / 2 ^ 50))
      (Finite (5404319552844596 / 2 ^ 54))) = Finite 4"
    by (simp add: round64_eval)
  have ne: "length (allValues series_small) \<noteq> 0"
    by (simp add: a)
  have gt: "js_gt (Finite 3) (Finite 0)"
    by (simp add: js_gt_def)
  have y: "yDomain series_small = (Finite (- 1), Finite 4)"
    unfolding yDomain_def mn mx
    by (simp only: ne gt if_False if_True Let_def series_small_steps up)
  have d: "domain_reference series_small = (0, 4)"
    by (simp add: s defined_values_def domain_reference_def)
  from f y d show ?thesis by simp
qed

lemma double_values_finite: "double_values data \<Longrightarrow> finite_values data"
  by (induction data)
     (auto simp: double_values_def finite_values_def split: jsval.splits number.splits)

lemma double_values_member:
  "double_values data \<Longrightarrow> v \<in> set (defined_values data) \<Longrightarrow> round64 v = Finite v"
  by (induction data)
     (auto simp: double_values_def defined_values_def split: jsval.splits number.splits)

lemma scenario_A_doubles:
  "round64 705 = Finite 705" "round64 715 = Finite 715" "round64 725 = Finite 725"
  by (simp_all add: round64_eval)

lemma series_large_nearest:
  "round64 (10 ^ 308) = Finite (5010420900022432 * 2 ^ 971)"
  by (simp add: round64_eval)

lemma series_large_double:
  "round_pos (5010420900022432 * 2 ^ 971) = Finite (5010420900022432 * 2 ^ 971)"
  by (simp add: round_pos_def quantum_def overflow_bound_def binade_def bitlength.simps
        round_half_even_def Let_def)

lemma round64_of_double:
  "0 < v \<Longrightarrow> round_pos v = Finite v \<Longrightarrow>
     round64 v = Finite v \<and> round64 (- v) = Finite (- v)"
  by (simp add: round64_def)

lemma double_values_pair:
  "round64 a = Finite a \<Longrightarrow> round64 b = Finite b \<Longrightarrow>
     double_values
       [\<lparr> time = t, actual = Num (Finite a), is_violation = f \<rparr>,
        \<lparr> time = t', actual = Num (Finite b), is_violation = f' \<rparr>]"
  by (simp add: double_values_def)

lemma series_large_doubles: "double_values series_large"
proof -
  have "0 < (5010420900022432 * 2 ^ 971 :: real)" by simp
  from round64_of_double [OF this series_large_double]
  show ?thesis unfolding series_large_def by (intro double_values_pair) simp_all
qed

lemma series_large_range:
  "js_sub (Finite (5010420900022432 * 2 ^ 971)) (Finite (- (5010420900022432 * 2 ^ 971))) =
     Infinity"
  by (simp add: js_sub_def) (simp add: round64_eval)

lemma yDomain_series_large: "yDomain series_large = (NegInfinity, Infinity)"
proof -
  have a: "allValues series_large =
      [Finite (5010420900022432 * 2 ^ 971), Finite (- (5010420900022432 * 2 ^ 971))]"
    by (simp only: series_large_def allValues_def filter_numbers_def) simp
  have ne: "length (allValues series_large) \<noteq> 0"
    by (simp only: a) simp
  have mn: "Math_min (allValues series_large) = Finite (- (5010420900022432 * 2 ^ 971))"
    by (simp only: a Math_min_def) simp
  have mx: "Math_max (allValues series_large) = Finite (5010420900022432 * 2 ^ 971)"
    by (simp only: a Math_max_def) (simp add: js_gt_def)
  have gt: "js_gt Infinity (Finite 0)"
    by (simp add: js_gt_def)
  have pad: "js_mul Infinity (round64 (1 / 10)) = Infinity"
    by (simp add: round64_tenth)
  have lo: "Math_floor (js_sub (Finite (- (5010420900022432 * 2 ^ 971))) Infinity) = NegInfinity"
    by (simp only: js_sub_def js_neg.simps js_add.simps Math_floor.simps)
  have hi: "Math_ceil (js_add (Finite (5010420900022432 * 2 ^ 971)) Infinity) = Infinity"
    by (simp only: js_add.simps Math_ceil.simps)
  show ?thesis
    unfolding yDomain_def mn mx
    by (simp only: ne gt if_False if_True Let_def series_large_range pad lo hi)
qed

text \<open>
  Claim C2. On every series of doubles with at least one defined numeric value, the lower
  bound of the render domain is at most the least defined value and the upper bound is
  at least the greatest one, in the order of the language, so every defined value lies
  inside the domain. A bound is an infinity when the range or a sum overflows, as for the
  readings 1e308 and -1e308.
\<close>

theorem yDomain_covers:
  assumes "double_values data" and "defined_values data \<noteq> []"
  shows "js_le (fst (yDomain data)) (Finite (Min (set (defined_values data)))) \<and>
         js_le (Finite (Max (set (defined_values data)))) (snd (yDomain data)) \<and>
         (\<forall>v \<in> set (defined_values data).
            js_le (fst (yDomain data)) (Finite v) \<and> js_le (Finite v) (snd (yDomain data)))"
proof -
  define vs where "vs = defined_values data"
  define lo where "lo = Min (set vs)"
  define hi where "hi = Max (set vs)"
  define padding where "padding =
     (let range = js_sub (Finite hi) (Finite lo) in
      if js_gt range (Finite 0) then js_mul range (round64 (1 / 10)) else Finite 20)"
  have ne: "vs \<noteq> []" using assms(2) by (simp add: vs_def)
  have lo_in: "lo \<in> set vs" unfolding lo_def using ne by (intro Min_in) simp_all
  have hi_in: "hi \<in> set vs" unfolding hi_def using ne by (intro Max_in) simp_all
  have dl: "round64 lo = Finite lo"
    using double_values_member [OF assms(1)] lo_in by (simp add: vs_def)
  have dh: "round64 hi = Finite hi"
    using double_values_member [OF assms(1)] hi_in by (simp add: vs_def)
  have between: "\<forall>v \<in> set vs. lo \<le> v \<and> v \<le> hi"
    by (simp add: lo_def hi_def)
  then have "lo \<le> hi" using lo_in by blast
  then have pad: "padding \<in> insert Infinity {Finite p |p. 0 \<le> p}"
    unfolding padding_def by (rule padding_nonneg)
  have dom: "yDomain data =
      (Math_floor (js_sub (Finite lo) padding), Math_ceil (js_add (Finite hi) padding))"
    using yDomain_finite [OF double_values_finite [OF assms(1)] assms(2), of lo hi]
    by (simp add: Let_def padding_def lo_def hi_def vs_def)
  have l: "js_le (fst (yDomain data)) (Finite lo)"
    unfolding dom fst_conv using dl pad by (rule lower_bound)
  have h: "js_le (Finite hi) (snd (yDomain data))"
    unfolding dom snd_conv using dh pad by (rule upper_bound)
  have "\<forall>v \<in> set vs. js_le (fst (yDomain data)) (Finite v) \<and>
      js_le (Finite v) (snd (yDomain data))"
    using between l h js_le_trans_Finite by blast
  with l h show ?thesis
    unfolding vs_def [symmetric] lo_def [symmetric] hi_def [symmetric] by blast
qed

theorem yDomain_covers_witness:
  "double_values scenario_A \<and> defined_values scenario_A = [705, 715, 725] \<and>
   yDomain scenario_A = (Finite 703, Finite 727) \<and>
   js_le (fst (yDomain scenario_A)) (Finite (Min (set (defined_values scenario_A)))) \<and>
   js_le (Finite (Max (set (defined_values scenario_A)))) (snd (yDomain scenario_A)) \<and>
   double_values series_large \<and> defined_values series_large \<noteq> [] \<and>
   yDomain series_large = (NegInfinity, Infinity) \<and>
   js_le (fst (yDomain series_large)) (Finite (Min (set (defined_values series_large)))) \<and>
   js_le (Finite (Max (set (defined_values series_large)))) (snd (yDomain series_large))"
proof -
  have d: "double_values scenario_A"
    by (simp add: scenario_A_def double_values_def scenario_A_doubles)
  have v: "defined_values scenario_A = [705, 715, 725]"
    by (simp add: scenario_A_def defined_values_def)
  then have n: "defined_values scenario_A \<noteq> []" by simp
  have y: "yDomain scenario_A = (Finite 703, Finite 727)"
    by (simp add: scenario_A_def yDomain_def allValues_def filter_numbers_def Math_min_def
          Math_max_def js_sub_def js_gt_def round64_tenth)
       (simp add: round64_eval)
  have dl: "double_values series_large"
    by (rule series_large_doubles)
  have nl: "defined_values series_large \<noteq> []"
    by (simp only: series_large_def defined_values_def) simp
  from yDomain_covers [OF d n] yDomain_covers [OF dl nl] d v y dl nl yDomain_series_large
  show ?thesis by blast
qed

section \<open>Properties of the extrema\<close>

lemma defined_values_member:
  "x \<in> set (defined_values data) \<longleftrightarrow> (\<exists>p \<in> set data. actual p = Num (Finite x))"
  by (induction data)
     (auto simp: defined_values_def split: jsval.splits number.splits)

lemma find_first_occurrence:
  assumes "p \<in> set data" and "actual p = v" and "v \<noteq> Num NaN"
  shows "\<exists>i<length data. find (\<lambda>q. strict_eq (actual q) v) data = Some (data ! i) \<and>
           actual (data ! i) = v \<and> (\<forall>k<i. actual (data ! k) \<noteq> v)"
proof -
  have "\<exists>q. find (\<lambda>q. strict_eq (actual q) v) data = Some q"
    using assms by (cases "find (\<lambda>q. strict_eq (actual q) v) data")
      (auto simp: find_None_iff strict_eq_def)
  then obtain q where "find (\<lambda>q. strict_eq (actual q) v) data = Some q" ..
  then show ?thesis
    by (auto simp: find_Some_iff strict_eq_def)
qed

lemma minValue_finite:
  "finite_values data \<Longrightarrow> defined_values data \<noteq> [] \<Longrightarrow>
     minValue data = Finite (Min (set (defined_values data)))"
  by (simp add: minValue_def filter_numbers_finite Math_min_Finite)

lemma maxValue_finite:
  "finite_values data \<Longrightarrow> defined_values data \<noteq> [] \<Longrightarrow>
     maxValue data = Finite (Max (set (defined_values data)))"
  by (simp add: maxValue_def filter_numbers_finite Math_max_Finite)

lemma minPoint_finite:
  assumes "finite_values data" and "defined_values data \<noteq> []"
    and m: "m = Min (set (defined_values data))"
  shows "\<exists>i<length data. minPoint data = Some (data ! i) \<and>
           actual (data ! i) = Num (Finite m) \<and> (\<forall>k<i. actual (data ! k) \<noteq> Num (Finite m))"
proof -
  have "m \<in> set (defined_values data)"
    unfolding m using assms(2) by (intro Min_in) simp_all
  then obtain p where "p \<in> set data" and "actual p = Num (Finite m)"
    by (auto simp: defined_values_member)
  then have "\<exists>i<length data. find (\<lambda>q. strict_eq (actual q) (Num (Finite m))) data = Some (data ! i) \<and>
           actual (data ! i) = Num (Finite m) \<and> (\<forall>k<i. actual (data ! k) \<noteq> Num (Finite m))"
    by (intro find_first_occurrence) simp_all
  moreover have "minValue data = Finite m"
    unfolding m using assms(1,2) by (rule minValue_finite)
  ultimately show ?thesis
    by (simp only: minPoint_def)
qed

lemma maxPoint_finite:
  assumes "finite_values data" and "defined_values data \<noteq> []"
    and m: "m = Max (set (defined_values data))"
  shows "\<exists>i<length data. maxPoint data = Some (data ! i) \<and>
           actual (data ! i) = Num (Finite m) \<and> (\<forall>k<i. actual (data ! k) \<noteq> Num (Finite m))"
proof -
  have "m \<in> set (defined_values data)"
    unfolding m using assms(2) by (intro Max_in) simp_all
  then obtain p where "p \<in> set data" and "actual p = Num (Finite m)"
    by (auto simp: defined_values_member)
  then have "\<exists>i<length data. find (\<lambda>q. strict_eq (actual q) (Num (Finite m))) data = Some (data ! i) \<and>
           actual (data ! i) = Num (Finite m) \<and> (\<forall>k<i. actual (data ! k) \<noteq> Num (Finite m))"
    by (intro find_first_occurrence) simp_all
  moreover have "maxValue data = Finite m"
    unfolding m using assms(1,2) by (rule maxValue_finite)
  ultimately show ?thesis
    by (simp only: maxPoint_def)
qed

lemma filter_numbers_none:
  "(\<forall>p \<in> set data. \<not> typeof_number (actual p)) \<Longrightarrow> filter_numbers (map actual data) = []"
  by (induction data) (auto simp: filter_numbers_def split: jsval.splits)

lemma find_number_none:
  "(\<forall>p \<in> set data. \<not> typeof_number (actual p)) \<Longrightarrow>
     find (\<lambda>p. strict_eq (actual p) (Num n)) data = None"
  by (auto simp: find_None_iff strict_eq_def)

lemma visibleMinMaxPoints_none:
  assumes "\<forall>p \<in> set data. \<not> typeof_number (actual p)"
  shows "visibleMinMaxPoints data = []"
  using find_number_none [OF assms]
  by (simp add: visibleMinMaxPoints_def minPoint_def maxPoint_def)

text \<open>
  Claim C3. When no point of the series has a numeric value, \<open>visibleMinMaxPoints\<close> is
  empty. When the series has a defined numeric value, \<open>visibleMinMaxPoints\<close> holds the
  minimum point and then the maximum point: the minimum point is the first point of
  the series, in order, whose value is the minimum of the defined values, and the
  maximum point is the first one whose value is their maximum.
\<close>

theorem visibleMinMaxPoints_first_extrema:
  "((\<forall>p \<in> set data. \<not> typeof_number (actual p)) \<longrightarrow> visibleMinMaxPoints data = []) \<and>
   (finite_values data \<and> defined_values data \<noteq> [] \<longrightarrow>
      (\<exists>i j. i < length data \<and> j < length data \<and>
         visibleMinMaxPoints data = [data ! i, data ! j] \<and>
         actual (data ! i) = Num (Finite (Min (set (defined_values data)))) \<and>
         (\<forall>k<i. actual (data ! k) \<noteq> Num (Finite (Min (set (defined_values data))))) \<and>
         actual (data ! j) = Num (Finite (Max (set (defined_values data)))) \<and>
         (\<forall>k<j. actual (data ! k) \<noteq> Num (Finite (Max (set (defined_values data)))))))"
proof (intro conjI impI)
  assume "\<forall>p \<in> set data. \<not> typeof_number (actual p)"
  then show "visibleMinMaxPoints data = []"
    by (rule visibleMinMaxPoints_none)
next
  assume a: "finite_values data \<and> defined_values data \<noteq> []"
  define lo where "lo = Min (set (defined_values data))"
  define hi where "hi = Max (set (defined_values data))"
  from a obtain i where i: "i < length data" "minPoint data = Some (data ! i)"
      "actual (data ! i) = Num (Finite lo)" "\<forall>k<i. actual (data ! k) \<noteq> Num (Finite lo)"
    using minPoint_finite [of data lo] lo_def by blast
  from a obtain j where j: "j < length data" "maxPoint data = Some (data ! j)"
      "actual (data ! j) = Num (Finite hi)" "\<forall>k<j. actual (data ! k) \<noteq> Num (Finite hi)"
    using maxPoint_finite [of data hi] hi_def by blast
  have "visibleMinMaxPoints data = [data ! i, data ! j]"
    by (simp add: visibleMinMaxPoints_def i(2) j(2))
  with i j show "\<exists>i j. i < length data \<and> j < length data \<and>
         visibleMinMaxPoints data = [data ! i, data ! j] \<and>
         actual (data ! i) = Num (Finite (Min (set (defined_values data)))) \<and>
         (\<forall>k<i. actual (data ! k) \<noteq> Num (Finite (Min (set (defined_values data))))) \<and>
         actual (data ! j) = Num (Finite (Max (set (defined_values data)))) \<and>
         (\<forall>k<j. actual (data ! k) \<noteq> Num (Finite (Max (set (defined_values data)))))"
    unfolding lo_def [symmetric] hi_def [symmetric] by blast
qed

theorem visibleMinMaxPoints_first_extrema_witness:
  "list_all (\<lambda>p. \<not> typeof_number (actual p)) scenario_B \<and>
   visibleMinMaxPoints scenario_B = [] \<and>
   finite_values scenario_A \<and> defined_values scenario_A \<noteq> [] \<and>
   Min (set (defined_values scenario_A)) = 705 \<and> Max (set (defined_values scenario_A)) = 725 \<and>
   (\<exists>i j. i < length scenario_A \<and> j < length scenario_A \<and>
         visibleMinMaxPoints scenario_A = [scenario_A ! i, scenario_A ! j] \<and>
         actual (scenario_A ! i) = Num (Finite 705) \<and>
         actual (scenario_A ! j) = Num (Finite 725))"
proof -
  have b: "\<forall>p \<in> set scenario_B. \<not> typeof_number (actual p)"
    by (simp add: scenario_B_def)
  have a: "finite_values scenario_A \<and> defined_values scenario_A \<noteq> []"
    by (simp add: scenario_A_def finite_values_def defined_values_def)
  have m: "Min (set (defined_values scenario_A)) = 705 \<and> Max (set (defined_values scenario_A)) = 725"
    by (simp add: scenario_A_def defined_values_def)
  from visibleMinMaxPoints_first_extrema [of scenario_B] b
  have "visibleMinMaxPoints scenario_B = []" by blast
  moreover from visibleMinMaxPoints_first_extrema [of scenario_A] a m
  have "\<exists>i j. i < length scenario_A \<and> j < length scenario_A \<and>
         visibleMinMaxPoints scenario_A = [scenario_A ! i, scenario_A ! j] \<and>
         actual (scenario_A ! i) = Num (Finite 705) \<and>
         actual (scenario_A ! j) = Num (Finite 725)"
    by auto
  moreover have "list_all (\<lambda>p. \<not> typeof_number (actual p)) scenario_B"
    by (simp add: scenario_B_def)
  ultimately show ?thesis using a m by blast
qed

text \<open>
  Claim C4, as the code has it. On a flat series (at least one defined numeric value, and
  all of them equal) \<open>visibleMinMaxPoints\<close> holds two entries, and both are the first point
  of the series that has this value: the point is listed once as the minimum and once
  as the maximum. The third scenario of the design document shows the two entries.
\<close>

theorem visibleMinMaxPoints_flat:
  assumes "finite_values data" and "defined_values data \<noteq> []"
    and "\<forall>x \<in> set (defined_values data). x = v"
  shows "\<exists>i<length data. visibleMinMaxPoints data = [data ! i, data ! i] \<and>
           actual (data ! i) = Num (Finite v) \<and> (\<forall>k<i. actual (data ! k) \<noteq> Num (Finite v))"
proof -
  have "Min (set (defined_values data)) \<in> set (defined_values data)"
    using assms(2) by (intro Min_in) simp_all
  with assms(3) have lo: "v = Min (set (defined_values data))"
    by (metis)
  have "Max (set (defined_values data)) \<in> set (defined_values data)"
    using assms(2) by (intro Max_in) simp_all
  with assms(3) have hi: "v = Max (set (defined_values data))"
    by (metis)
  obtain i where i: "i < length data" "minPoint data = Some (data ! i)"
      "actual (data ! i) = Num (Finite v)" "\<forall>k<i. actual (data ! k) \<noteq> Num (Finite v)"
    using minPoint_finite [OF assms(1,2) lo] by blast
  have "maxPoint data = minPoint data"
    using minValue_finite [OF assms(1,2)] maxValue_finite [OF assms(1,2)] lo hi
    by (simp add: minPoint_def maxPoint_def)
  then have "visibleMinMaxPoints data = [data ! i, data ! i]"
    by (simp add: visibleMinMaxPoints_def i(2))
  with i show ?thesis by blast
qed

theorem visibleMinMaxPoints_flat_witness:
  "finite_values scenario_C \<and> defined_values scenario_C = [50, 50, 50] \<and>
   (\<exists>i<length scenario_C. visibleMinMaxPoints scenario_C = [scenario_C ! i, scenario_C ! i] \<and>
      actual (scenario_C ! i) = Num (Finite 50) \<and>
      (\<forall>k<i. actual (scenario_C ! k) \<noteq> Num (Finite 50)))"
proof -
  have c: "finite_values scenario_C" "defined_values scenario_C \<noteq> []"
      "\<forall>x \<in> set (defined_values scenario_C). x = 50"
    by (simp_all add: scenario_C_def finite_values_def defined_values_def)
  have d: "defined_values scenario_C = [50, 50, 50]"
    by (simp add: scenario_C_def defined_values_def)
  from visibleMinMaxPoints_flat [OF c] c(1) d show ?thesis by blast
qed

theorem visibleMinMaxPoints_flat_counterexample:
  "visibleMinMaxPoints scenario_C =
     [\<lparr> time = Str ''0'', actual = Num (Finite 50), is_violation = Bool False \<rparr>,
      \<lparr> time = Str ''0'', actual = Num (Finite 50), is_violation = Bool False \<rparr>] \<and>
   length (visibleMinMaxPoints scenario_C) \<noteq> 1"
  by (simp add: scenario_C_def visibleMinMaxPoints_def minPoint_def maxPoint_def
        minValue_def maxValue_def filter_numbers_def Math_min_def Math_max_def
        js_gt_def strict_eq_def)

section \<open>Properties of the projection\<close>

lemma processedChartData_nth:
  "i < length readings \<Longrightarrow>
     processedChartData (Some readings) p ! i =
       \<lparr> time = property (readings ! i) ''time'',
         actual = property (readings ! i) p,
         is_violation = js_or (property (readings ! i) ''is_violation'') (Bool False) \<rparr>"
  by (cases readings) (simp_all add: processedChartData_def del: list.map)

lemma processedChartData_length:
  "length (processedChartData (Some readings) p) = length readings"
  by (simp add: processedChartData_def)

text \<open>
  Claim C5. For every array of readings and every parameter, the projection has one
  point per reading, in the order of the readings: the output is as long as the input
  and the time of the i-th point is the time of the i-th reading. The older
  projection of \<open>frontend/src/App.js\<close> does the same.
\<close>

theorem processedChartData_preserves_order:
  "length (processedChartData (Some readings) p) = length readings \<and>
   (\<forall>i<length readings.
      time (processedChartData (Some readings) p ! i) = property (readings ! i) ''time'') \<and>
   (\<exists>out. processedChartData_App (Some readings) p = Inr out \<and>
      length out = length readings \<and>
      (\<forall>i<length readings. property (out ! i) ''time'' = property (readings ! i) ''time''))"
  by (simp add: processedChartData_length processedChartData_nth processedChartData_App_def
        property_def)

theorem processedChartData_preserves_order_witness:
  "length (processedChartData (Some readings_A) ''metal_temperature'') = 3 \<and>
   (1::nat) < length readings_A \<and>
   time (processedChartData (Some readings_A) ''metal_temperature'' ! 1) = Str ''1'' \<and>
   (\<exists>out. processedChartData_App (Some readings_A) ''metal_temperature'' = Inr out \<and>
      length out = 3 \<and> property (out ! 1) ''time'' = Str ''1'')"
proof -
  have l: "length readings_A = 3" "(1::nat) < length readings_A"
    by (simp_all add: readings_A_def)
  have t: "property (readings_A ! 1) ''time'' = Str ''1''"
    by (simp add: readings_A_def property_def)
  from processedChartData_preserves_order [of readings_A "''metal_temperature''"] l t
  show ?thesis by auto
qed

text \<open>
  Claim C6. For every array of readings and every selected parameter, the value of
  each projected point is the value that the reading has for the parameter, unchanged:
  it is a number exactly when the reading holds a number there, and an absent value
  stays absent.
\<close>

theorem processedChartData_value_present:
  "\<forall>i<length readings.
     actual (processedChartData (Some readings) p ! i) = property (readings ! i) p \<and>
     (typeof_number (actual (processedChartData (Some readings) p ! i)) \<longleftrightarrow>
        typeof_number (property (readings ! i) p))"
  by (simp add: processedChartData_nth)

theorem processedChartData_value_present_witness:
  "(0::nat) < length readings_A \<and> (1::nat) < length readings_A \<and> (2::nat) < length readings_A \<and>
   actual (processedChartData (Some readings_A) ''metal_temperature'' ! 0) = Num (Finite 705) \<and>
   actual (processedChartData (Some readings_A) ''metal_temperature'' ! 1) = Undefined \<and>
   actual (processedChartData (Some readings_A) ''metal_temperature'' ! 2) = Null \<and>
   \<not> typeof_number (actual (processedChartData (Some readings_A) ''metal_temperature'' ! 1))"
proof -
  have l: "(0::nat) < length readings_A" "(1::nat) < length readings_A" "(2::nat) < length readings_A"
    by (simp_all add: readings_A_def)
  have v: "property (readings_A ! 0) ''metal_temperature'' = Num (Finite 705)"
      "property (readings_A ! 1) ''metal_temperature'' = Undefined"
      "property (readings_A ! 2) ''metal_temperature'' = Null"
    by (simp_all add: readings_A_def property_def)
  from processedChartData_value_present [of readings_A "''metal_temperature''"] l v
  show ?thesis by auto
qed

text \<open>
  Claim C10, as the code has it. The violation flag of a projected point is the flag of
  the reading itself when that flag is truthy, and the boolean \<open>false\<close> when it is
  falsy or missing. So a reading whose flag is a boolean, \<open>null\<close> or missing gives a
  boolean flag, which is \<open>true\<close> exactly when the reading's flag is \<open>true\<close>; a truthy flag
  that is not a boolean, such as the number 1, is passed on as it is.
\<close>

theorem processedChartData_violation_flag:
  "\<forall>i<length readings.
     is_violation (processedChartData (Some readings) p ! i) =
       (if truthy (property (readings ! i) ''is_violation'')
        then property (readings ! i) ''is_violation'' else Bool False) \<and>
     (property (readings ! i) ''is_violation'' \<in> {Undefined, Null, Bool False, Bool True} \<longrightarrow>
        is_violation (processedChartData (Some readings) p ! i) =
          Bool (property (readings ! i) ''is_violation'' = Bool True))"
  by (auto simp add: processedChartData_nth js_or_def)

theorem processedChartData_violation_flag_witness:
  "(0::nat) < length readings_A \<and> (2::nat) < length readings_A \<and>
   property (readings_A ! 0) ''is_violation'' \<in> {Undefined, Null, Bool False, Bool True} \<and>
   property (readings_A ! 2) ''is_violation'' \<in> {Undefined, Null, Bool False, Bool True} \<and>
   is_violation (processedChartData (Some readings_A) ''metal_temperature'' ! 0) = Bool True \<and>
   is_violation (processedChartData (Some readings_A) ''metal_temperature'' ! 2) = Bool False"
proof -
  have l: "(0::nat) < length readings_A" "(2::nat) < length readings_A"
    by (simp_all add: readings_A_def)
  have v: "property (readings_A ! 0) ''is_violation'' = Bool True"
      "property (readings_A ! 2) ''is_violation'' = Undefined"
    by (simp_all add: readings_A_def property_def)
  from processedChartData_violation_flag [of readings_A "''metal_temperature''"] l v
  show ?thesis by auto
qed

theorem processedChartData_violation_flag_counterexample:
  "truthy (property (readings_A ! 1) ''is_violation'') \<and>
   is_violation (processedChartData (Some readings_A) ''metal_temperature'' ! 1) = Num (Finite 1) \<and>
   is_violation (processedChartData (Some readings_A) ''metal_temperature'' ! 1) \<noteq> Bool True"
  by (simp add: readings_A_def processedChartData_def property_def js_or_def)

section \<open>Properties of the threshold state\<close>

lemma getCurrentThreshold_frame:
  "q \<noteq> ''metal_temperature'' \<Longrightarrow>
     getCurrentThreshold (setSelectedParameter (st\<lparr>metalTempThreshold := n\<rparr>) q) =
     getCurrentThreshold (setSelectedParameter st q)"
  "q \<noteq> ''metal_temperature'' \<Longrightarrow>
     getCurrentThreshold (setSelectedParameter (st\<lparr>metalTempLowerThreshold := n\<rparr>) q) =
     getCurrentThreshold (setSelectedParameter st q)"
  "q \<noteq> ''solidification_time'' \<Longrightarrow>
     getCurrentThreshold (setSelectedParameter (st\<lparr>solidificationTimeThreshold := n\<rparr>) q) =
     getCurrentThreshold (setSelectedParameter st q)"
  "q \<noteq> ''solidification_time'' \<Longrightarrow>
     getCurrentThreshold (setSelectedParameter (st\<lparr>solidificationTimeLowerThreshold := n\<rparr>) q) =
     getCurrentThreshold (setSelectedParameter st q)"
  "q \<noteq> ''tilting_angle'' \<Longrightarrow>
     getCurrentThreshold (setSelectedParameter (st\<lparr>tiltingAngleThreshold := n\<rparr>) q) =
     getCurrentThreshold (setSelectedParameter st q)"
  "q \<noteq> ''tilting_angle'' \<Longrightarrow>
     getCurrentThreshold (setSelectedParameter (st\<lparr>tiltingAngleLowerThreshold := n\<rparr>) q) =
     getCurrentThreshold (setSelectedParameter st q)"
  "q \<noteq> ''tilting_speed'' \<Longrightarrow>
     getCurrentThreshold (setSelectedParameter (st\<lparr>tiltingSpeedThreshold := n\<rparr>) q) =
     getCurrentThreshold (setSelectedParameter st q)"
  "q \<noteq> ''tilting_speed'' \<Longrightarrow>
     getCurrentThreshold (setSelectedParameter (st\<lparr>tiltingSpeedLowerThreshold := n\<rparr>) q) =
     getCurrentThreshold (setSelectedParameter st q)"
  "q \<noteq> ''top_die_temperature'' \<Longrightarrow>
     getCurrentThreshold (setSelectedParameter (st\<lparr>topDieTempThreshold := n\<rparr>) q) =
     getCurrentThreshold (setSelectedParameter st q)"
  "q \<noteq> ''top_die_temperature'' \<Longrightarrow>
     getCurrentThreshold (setSelectedParameter (st\<lparr>topDieTempLowerThreshold := n\<rparr>) q) =
     getCurrentThreshold (setSelectedParameter st q)"
  by (simp_all add: getCurrentThreshold_def setSelectedParameter_def)


lemma updateThreshold_other:
  "q \<noteq> selectedParameter st \<Longrightarrow>
     (case updateThreshold st type value of
        Inl e \<Rightarrow> False
      | Inr st' \<Rightarrow> getCurrentThreshold (setSelectedParameter st' q) =
                  getCurrentThreshold (setSelectedParameter st q))"
  by (auto simp add: updateThreshold_def Let_def getCurrentThreshold_frame)

lemma updateThreshold_same:
  "(case updateThreshold st type value of
      Inl e \<Rightarrow> False
    | Inr st' \<Rightarrow> selectedParameter st' = selectedParameter st \<and>
        (\<forall>t t'. getCurrentThreshold st = Inr t \<and> getCurrentThreshold st' = Inr t' \<longrightarrow>
           (type = ''upper'' \<longrightarrow> lower t' = lower t) \<and>
           (type \<noteq> ''upper'' \<longrightarrow> upper t' = upper t)))"
  by (simp add: updateThreshold_def Let_def getCurrentThreshold_def)

lemma getCurrentThreshold_switch:
  "getCurrentThreshold (setSelectedParameter (setSelectedParameter st q) r) =
   getCurrentThreshold (setSelectedParameter st r)"
  by (simp add: getCurrentThreshold_def setSelectedParameter_def)

text \<open>
  Claim C7. For every state, every side and every input string that \<open>parseInt\<close> turns
  into \<open>NaN\<close>, \<open>updateThreshold\<close> raises nothing and leaves the state as it was, so the
  thresholds read afterwards for any parameter are the ones read before.
\<close>

theorem updateThreshold_rejects:
  assumes "parseInt value = NaN"
  shows "\<exists>st'. updateThreshold st type value = Inr st' \<and> st' = st \<and>
           (\<forall>q. getCurrentThreshold (setSelectedParameter st' q) =
                getCurrentThreshold (setSelectedParameter st q))"
  using assms by (simp add: updateThreshold_def isNaN_def)

theorem updateThreshold_rejects_witness:
  "parseInt ''abc'' = NaN \<and> parseInt [] = NaN \<and>
   updateThreshold initial ''upper'' ''abc'' = Inr initial \<and>
   updateThreshold initial ''lower'' [] = Inr initial \<and>
   getCurrentThreshold initial = Inr \<lparr> upper = Num (Finite 730), lower = Num (Finite 710) \<rparr>"
proof -
  have p: "parseInt ''abc'' = NaN" "parseInt [] = NaN"
    by (simp_all add: parseInt_def is_white_space_def is_digit_def)
  have g: "getCurrentThreshold initial =
      Inr \<lparr> upper = Num (Finite 730), lower = Num (Finite 710) \<rparr>"
    by (simp add: getCurrentThreshold_def initial_def)
  from updateThreshold_rejects [OF p(1), of initial "''upper''"]
    updateThreshold_rejects [OF p(2), of initial "''lower''"] p g
  show ?thesis by auto
qed

text \<open>
  Claim C8, as the code has it. When the selected identifier is none of the five
  parameters, \<open>getCurrentThreshold\<close> raises nothing and returns the pair whose upper
  and lower bounds are both \<open>undefined\<close>.
\<close>

theorem getCurrentThreshold_unknown:
  "selectedParameter st \<notin> set parameters \<Longrightarrow>
     getCurrentThreshold st = Inr \<lparr> upper = Undefined, lower = Undefined \<rparr>"
  by (simp add: getCurrentThreshold_def parameters_def)

theorem getCurrentThreshold_unknown_witness:
  "selectedParameter (setSelectedParameter initial ''pressure'') \<notin> set parameters \<and>
   getCurrentThreshold (setSelectedParameter initial ''pressure'') =
     Inr \<lparr> upper = Undefined, lower = Undefined \<rparr>"
proof -
  have n: "selectedParameter (setSelectedParameter initial ''pressure'') \<notin> set parameters"
    by (simp add: setSelectedParameter_def parameters_def)
  from getCurrentThreshold_unknown [OF n] n show ?thesis by simp
qed

theorem getCurrentThreshold_unknown_counterexample:
  "[] \<notin> set parameters \<and>
   getCurrentThreshold (setSelectedParameter initial []) =
     Inr \<lparr> upper = Undefined, lower = Undefined \<rparr> \<and>
   getCurrentThreshold (setSelectedParameter initial []) \<noteq> Inl UnknownParameter"
  by (simp add: getCurrentThreshold_def setSelectedParameter_def parameters_def)

text \<open>
  Claim C9. For every state, side and input string, \<open>updateThreshold\<close> returns a state
  in which the thresholds of every parameter other than the selected one are as
  before, and in which the opposite side of the selected parameter is as before;
  selecting another parameter changes no threshold.
\<close>

theorem updateThreshold_frame:
  "\<exists>st'. updateThreshold st type value = Inr st' \<and>
     (\<forall>q. q \<noteq> selectedParameter st \<longrightarrow>
        getCurrentThreshold (setSelectedParameter st' q) =
        getCurrentThreshold (setSelectedParameter st q)) \<and>
     (\<forall>t t'. getCurrentThreshold st = Inr t \<and> getCurrentThreshold st' = Inr t' \<longrightarrow>
        (type = ''upper'' \<longrightarrow> lower t' = lower t) \<and>
        (type \<noteq> ''upper'' \<longrightarrow> upper t' = upper t)) \<and>
     (\<forall>q r. getCurrentThreshold (setSelectedParameter (setSelectedParameter st q) r) =
        getCurrentThreshold (setSelectedParameter st r))"
proof (cases "updateThreshold st type value")
  case (Inl e)
  have False
    using updateThreshold_same [of st type "value"] by (simp only: Inl sum.case)
  then show ?thesis ..
next
  case (Inr st')
  have other: "getCurrentThreshold (setSelectedParameter st' q) =
        getCurrentThreshold (setSelectedParameter st q)" if "q \<noteq> selectedParameter st" for q
    using updateThreshold_other [OF that, of type "value"] by (simp only: Inr sum.case)
  have same: "\<forall>t t'. getCurrentThreshold st = Inr t \<and> getCurrentThreshold st' = Inr t' \<longrightarrow>
        (type = ''upper'' \<longrightarrow> lower t' = lower t) \<and>
        (type \<noteq> ''upper'' \<longrightarrow> upper t' = upper t)"
    by (rule updateThreshold_same [of st type "value", unfolded Inr sum.case, THEN conjunct2])
  show ?thesis
  proof (intro exI conjI allI impI)
    show "updateThreshold st type value = Inr st'" by (rule Inr)
  next
    fix q assume "q \<noteq> selectedParameter st"
    then show "getCurrentThreshold (setSelectedParameter st' q) =
        getCurrentThreshold (setSelectedParameter st q)" by (rule other)
  next
    fix t t' assume a: "getCurrentThreshold st = Inr t \<and> getCurrentThreshold st' = Inr t'"
      and "type = ''upper''"
    with same show "lower t' = lower t" by blast
  next
    fix t t' assume a: "getCurrentThreshold st = Inr t \<and> getCurrentThreshold st' = Inr t'"
      and "type \<noteq> ''upper''"
    with same show "upper t' = upper t" by blast
  next
    fix q r
    show "getCurrentThreshold (setSelectedParameter (setSelectedParameter st q) r) =
        getCurrentThreshold (setSelectedParameter st r)"
      by (rule getCurrentThreshold_switch)
  qed
qed

theorem updateThreshold_frame_witness:
  "updateThreshold initial ''upper'' ''725'' = Inr (initial\<lparr>metalTempThreshold := Finite 725\<rparr>) \<and>
   ''tilting_speed'' \<noteq> selectedParameter initial \<and>
   getCurrentThreshold (setSelectedParameter (initial\<lparr>metalTempThreshold := Finite 725\<rparr>) ''tilting_speed'') =
     getCurrentThreshold (setSelectedParameter initial ''tilting_speed'') \<and>
   getCurrentThreshold initial = Inr \<lparr> upper = Num (Finite 730), lower = Num (Finite 710) \<rparr> \<and>
   getCurrentThreshold (initial\<lparr>metalTempThreshold := Finite 725\<rparr>) =
     Inr \<lparr> upper = Num (Finite 725), lower = Num (Finite 710) \<rparr> \<and>
   updateThreshold initial ''lower'' ''700'' = Inr (initial\<lparr>metalTempLowerThreshold := Finite 700\<rparr>) \<and>
   ''lower'' \<noteq> ''upper'' \<and>
   getCurrentThreshold (initial\<lparr>metalTempLowerThreshold := Finite 700\<rparr>) =
     Inr \<lparr> upper = Num (Finite 730), lower = Num (Finite 700) \<rparr>"
proof -
  have u: "updateThreshold initial ''upper'' ''725'' =
      Inr (initial\<lparr>metalTempThreshold := Finite 725\<rparr>)"
    by (simp add: updateThreshold_def parseInt_def is_white_space_def is_digit_def
          digits_value_def isNaN_def initial_def round64_eval)
  have l: "updateThreshold initial ''lower'' ''700'' =
      Inr (initial\<lparr>metalTempLowerThreshold := Finite 700\<rparr>)"
    by (simp add: updateThreshold_def parseInt_def is_white_space_def is_digit_def
          digits_value_def isNaN_def initial_def round64_eval)
  have q: "''tilting_speed'' \<noteq> selectedParameter initial"
    by (simp add: initial_def)
  have g: "getCurrentThreshold initial =
      Inr \<lparr> upper = Num (Finite 730), lower = Num (Finite 710) \<rparr>"
    by (simp add: getCurrentThreshold_def initial_def)
  have gu: "\<exists>t'. getCurrentThreshold (initial\<lparr>metalTempThreshold := Finite 725\<rparr>) =
      Inr t' \<and> upper t' = Num (Finite 725)"
    by (simp add: getCurrentThreshold_def initial_def)
  have gl: "\<exists>t'. getCurrentThreshold (initial\<lparr>metalTempLowerThreshold := Finite 700\<rparr>) =
      Inr t' \<and> lower t' = Num (Finite 700)"
    by (simp add: getCurrentThreshold_def initial_def)
  from updateThreshold_frame [of initial "''upper''" "''725''"] u q g gu
  have 1: "getCurrentThreshold (setSelectedParameter (initial\<lparr>metalTempThreshold := Finite 725\<rparr>) ''tilting_speed'') =
     getCurrentThreshold (setSelectedParameter initial ''tilting_speed'') \<and>
     getCurrentThreshold (initial\<lparr>metalTempThreshold := Finite 725\<rparr>) =
     Inr \<lparr> upper = Num (Finite 725), lower = Num (Finite 710) \<rparr>"
    by auto
  from updateThreshold_frame [of initial "''lower''" "''700''"] l g gl
  have 2: "getCurrentThreshold (initial\<lparr>metalTempLowerThreshold := Finite 700\<rparr>) =
     Inr \<lparr> upper = Num (Finite 730), lower = Num (Finite 700) \<rparr>"
    by auto
  from 1 2 u l q g show ?thesis by simp
qed

end
